theory Spec2Isabelle
  imports Complex_Main "HOL-Library.DAList" "HOL-Library.Sublist"
begin

section \<open>Numbers and time\<close>

text \<open>
  The cache computes with JavaScript numbers: the clock reading \<open>Date.now()\<close> (milliseconds)
  and time-to-live values in seconds, which the unit tests also pass as fractions
  (\<open>0.1\<close>). They are modelled as exact rationals; \<open>NaN\<close>, the infinities and the
  rounding of doubles are outside the model. A number is falsy for \<open>||\<close> exactly when it
  is \<open>0\<close>. Every operation that reads the clock takes the reading as the argument \<open>now\<close>.
\<close>

type_synonym number = rat

section \<open>src/lib/cache.ts: the class Cache\<close>

text \<open>
  \<open>CacheEntry<T>\<close> and \<open>CacheOptions\<close> of \<open>src/types/index.ts\<close>. Both fields of the
  options are optional, and the constructor's parameter defaults to \<open>{}\<close>.
\<close>

record 'a CacheEntry =
  data :: 'a
  expiresAt :: number

record CacheOptions =
  ttl :: "number option"
  optKeyPrefix :: "string option"

text \<open>
  The private field \<open>cache\<close> is a JavaScript \<open>Map\<close>: keys are unique and entries keep
  their insertion order. That is an association list with distinct keys
  (\<open>DAList\<close>): \<open>DAList.lookup\<close> is \<open>Map.get\<close>, \<open>DAList.update\<close> is \<open>Map.set\<close> (an
  existing key keeps its position), \<open>DAList.delete\<close> is \<open>Map.delete\<close>, and
  \<open>DAList.impl_of\<close> lists the entries in iteration order.
\<close>

record 'a Cache =
  cache :: "(string, 'a CacheEntry) alist"
  defaultTTL :: number
  keyPrefix :: string

definition empty_options :: CacheOptions where
  "empty_options = \<lparr>ttl = None, optKeyPrefix = None\<rparr>"

text \<open>
  \<open>x || d\<close> on an optional number (a rational, or an integer where the code counts):
  \<open>undefined\<close> and \<open>0\<close> are falsy.
\<close>

definition or_number :: "'n::zero option \<Rightarrow> 'n \<Rightarrow> 'n" where
  "or_number x d = (case x of None \<Rightarrow> d | Some v \<Rightarrow> if v = 0 then d else v)"

text \<open>\<open>x || d\<close> on an optional string: \<open>undefined\<close> and the empty string are falsy.\<close>

definition or_string :: "string option \<Rightarrow> string \<Rightarrow> string" where
  "or_string x d = (case x of None \<Rightarrow> d | Some v \<Rightarrow> if v = [] then d else v)"

definition Cache_constructor :: "CacheOptions option \<Rightarrow> 'a Cache" where
  "Cache_constructor options =
     (let opts = (case options of None \<Rightarrow> empty_options | Some v \<Rightarrow> v)
      in \<lparr>cache = DAList.empty,
          defaultTTL = or_number (ttl opts) 300,
          keyPrefix = or_string (optKeyPrefix opts) []\<rparr>)"

text \<open>
  \<open>get\<close> returns the value or \<open>null\<close> (\<open>None\<close>) together with the cache after the call:
  an expired entry is deleted on the way.
\<close>

definition Cache_get :: "string \<Rightarrow> number \<Rightarrow> 'a Cache \<Rightarrow> 'a option \<times> 'a Cache" where
  "Cache_get key now c =
     (let fullKey = keyPrefix c @ key
      in case DAList.lookup (cache c) fullKey of
           None \<Rightarrow> (None, c)
         | Some entry \<Rightarrow>
             if now > expiresAt entry
             then (None, c\<lparr>cache := DAList.delete fullKey (cache c)\<rparr>)
             else (Some (data entry), c))"

definition Cache_set :: "string \<Rightarrow> 'a \<Rightarrow> number option \<Rightarrow> number \<Rightarrow> 'a Cache \<Rightarrow> 'a Cache" where
  "Cache_set key v ttl_arg now c =
     (let fullKey = keyPrefix c @ key;
          expires = now + or_number ttl_arg (defaultTTL c) * 1000
      in c\<lparr>cache := DAList.update fullKey \<lparr>data = v, expiresAt = expires\<rparr> (cache c)\<rparr>)"

definition Cache_delete :: "string \<Rightarrow> 'a Cache \<Rightarrow> bool \<times> 'a Cache" where
  "Cache_delete key c =
     (let fullKey = keyPrefix c @ key
      in (DAList.lookup (cache c) fullKey \<noteq> None,
          c\<lparr>cache := DAList.delete fullKey (cache c)\<rparr>))"

definition Cache_clear :: "'a Cache \<Rightarrow> 'a Cache" where
  "Cache_clear c = c\<lparr>cache := DAList.empty\<rparr>"

definition Cache_size :: "'a Cache \<Rightarrow> nat" where
  "Cache_size c = length (DAList.impl_of (cache c))"

text \<open>
  \<open>cleanup\<close> reads the clock once and walks the entries of the map, deleting the current
  key when its entry has expired. Deleting the entry being visited does not disturb the
  iteration of a \<open>Map\<close>, so the walk is over the entries as they were at the start.
\<close>

fun cleanup_loop ::
  "number \<Rightarrow> (string \<times> 'a CacheEntry) list \<Rightarrow> (string, 'a CacheEntry) alist
     \<Rightarrow> (string, 'a CacheEntry) alist" where
  "cleanup_loop now [] m = m"
| "cleanup_loop now ((key, entry) # rest) m =
     cleanup_loop now rest (if now > expiresAt entry then DAList.delete key m else m)"

definition Cache_cleanup :: "number \<Rightarrow> 'a Cache \<Rightarrow> 'a Cache" where
  "Cache_cleanup now c = c\<lparr>cache := cleanup_loop now (DAList.impl_of (cache c)) (cache c)\<rparr>"


text \<open>
  \<open>invalidatePattern\<close> builds \<open>new RegExp(pattern)\<close> and deletes every key on which
  \<open>regex.test\<close> succeeds. The regular expressions of the platform are modelled for a
  fragment of the pattern syntax: literal characters, \<open>.\<close>, the quantifiers \<open>*\<close>, \<open>+\<close>
  and \<open>?\<close> (greedy or followed by the lazy mark \<open>?\<close>, which does not change whether a
  match exists), and the assertions \<open>^\<close> and \<open>$\<close>. A pattern that uses anything else
  (escapes, groups, classes, braces, alternation) is reported as \<open>OutsideFragment\<close> and
  nothing is said about it. Strings are sequences of code units below 256.
\<close>

datatype atom = Lit char | AnyChar

datatype rterm = Caret | Dollar | Once atom | Opt atom | Star atom | Plus atom

type_synonym regex = "rterm list"

datatype pattern_error = SyntaxError | OutsideFragment

definition quantified :: "char \<Rightarrow> atom \<Rightarrow> rterm" where
  "quantified q a = (if q = CHR ''*'' then Star a else if q = CHR ''+'' then Plus a else Opt a)"

definition cons_term :: "rterm \<Rightarrow> pattern_error + regex \<Rightarrow> pattern_error + regex" where
  "cons_term t res = (case res of Inl e \<Rightarrow> Inl e | Inr r \<Rightarrow> Inr (t # r))"

definition is_quantifier :: "char \<Rightarrow> bool" where
  "is_quantifier c = (c \<in> set ''*+?'')"

definition beyond_fragment :: "char \<Rightarrow> bool" where
  "beyond_fragment c = (c \<in> set [CHR 0x5C, CHR ''('', CHR '')'', CHR ''['', CHR '']'', CHR ''{'', CHR ''}'', CHR ''|''])"

text \<open>
  \<open>new RegExp(pattern)\<close>, left to right. A quantifier with no atom before it (at the start,
  after an assertion, after another quantifier and its lazy mark) is the platform's
  \<open>SyntaxError: Nothing to repeat\<close>.
\<close>

fun RegExp :: "string \<Rightarrow> pattern_error + regex" where
  "RegExp [] = Inr []"
| "RegExp (c # cs) =
     (if is_quantifier c then Inl SyntaxError
      else if beyond_fragment c then Inl OutsideFragment
      else if c = CHR ''^'' then cons_term Caret (RegExp cs)
      else if c = CHR ''$'' then cons_term Dollar (RegExp cs)
      else
        (let a = (if c = CHR ''.'' then AnyChar else Lit c)
         in case cs of
              [] \<Rightarrow> Inr [Once a]
            | q # rest \<Rightarrow>
                if is_quantifier q
                then (case rest of
                        [] \<Rightarrow> Inr [quantified q a]
                      | l # rest' \<Rightarrow>
                          if l = CHR ''?'' then cons_term (quantified q a) (RegExp rest')
                          else cons_term (quantified q a) (RegExp rest))
                else cons_term (Once a) (RegExp cs)))"

text \<open>\<open>.\<close> matches every code unit but the line terminators (line feed, carriage return).\<close>

fun atom_matches :: "atom \<Rightarrow> char \<Rightarrow> bool" where
  "atom_matches (Lit c) x = (x = c)"
| "atom_matches AnyChar x = (x \<noteq> CHR 0x0A \<and> x \<noteq> CHR 0x0D)"

text \<open>
  \<open>match_here r bol s\<close>: the pattern \<open>r\<close> matches a prefix of \<open>s\<close>, where \<open>bol\<close> says that
  \<open>s\<close> starts at index 0 of the input. Without flags \<open>^\<close> holds only at index 0 and \<open>$\<close>
  only at the end of the input.
\<close>

fun match_here :: "regex \<Rightarrow> bool \<Rightarrow> string \<Rightarrow> bool" where
  "match_here [] bol s = True"
| "match_here (Caret # r) bol s = (bol \<and> match_here r bol s)"
| "match_here (Dollar # r) bol s = (s = [] \<and> match_here r bol s)"
| "match_here (Once a # r) bol s =
     (case s of [] \<Rightarrow> False | x # xs \<Rightarrow> atom_matches a x \<and> match_here r False xs)"
| "match_here (Opt a # r) bol s =
     (match_here r bol s \<or>
      (case s of [] \<Rightarrow> False | x # xs \<Rightarrow> atom_matches a x \<and> match_here r False xs))"
| "match_here (Star a # r) bol s =
     (match_here r bol s \<or>
      (case s of [] \<Rightarrow> False | x # xs \<Rightarrow> atom_matches a x \<and> match_here (Star a # r) False xs))"
| "match_here (Plus a # r) bol s =
     (case s of [] \<Rightarrow> False | x # xs \<Rightarrow> atom_matches a x \<and> match_here (Star a # r) False xs)"

text \<open>\<open>regex.test(s)\<close> without flags: a match may start at any index.\<close>

fun search :: "regex \<Rightarrow> bool \<Rightarrow> string \<Rightarrow> bool" where
  "search r bol [] = match_here r bol []"
| "search r bol (x # xs) = (match_here r bol (x # xs) \<or> search r False xs)"

definition test :: "regex \<Rightarrow> string \<Rightarrow> bool" where
  "test r s = search r True s"

fun invalidate_loop ::
  "regex \<Rightarrow> string list \<Rightarrow> (string, 'a CacheEntry) alist \<Rightarrow> (string, 'a CacheEntry) alist" where
  "invalidate_loop regex [] m = m"
| "invalidate_loop regex (key # rest) m =
     invalidate_loop regex rest (if test regex key then DAList.delete key m else m)"

definition Cache_invalidatePattern :: "string \<Rightarrow> 'a Cache \<Rightarrow> pattern_error + 'a Cache" where
  "Cache_invalidatePattern pattern c =
     (case RegExp pattern of
        Inl e \<Rightarrow> Inl e
      | Inr regex \<Rightarrow>
          Inr (c\<lparr>cache := invalidate_loop regex (map fst (DAList.impl_of (cache c))) (cache c)\<rparr>))"

text \<open>
  A plain pattern has none of the characters that the pattern syntax gives a meaning to:
  every character of it stands for itself.
\<close>

definition plain :: "string \<Rightarrow> bool" where
  "plain p = list_all (\<lambda>c. c \<notin> set ''^$.*+?'' \<and> \<not> beyond_fragment c) p"

section \<open>src/lib/cache.ts: the class CacheManager\<close>

text \<open>
  The registry maps a name to a \<open>Cache\<close> object, and what it hands out is the object
  itself, not a copy. Objects are modelled by an explicit store: a reference is an index
  into the list of the \<open>Cache\<close> objects allocated so far, and \<open>new Cache(options)\<close>
  appends to it.
\<close>

type_synonym ref = nat

record 'a CacheManager =
  caches :: "(string, ref) alist"
  store :: "'a Cache list"

definition CacheManager_constructor :: "'a CacheManager" where
  "CacheManager_constructor = \<lparr>caches = DAList.empty, store = []\<rparr>"

definition CacheManager_getCache ::
  "string \<Rightarrow> CacheOptions option \<Rightarrow> 'a CacheManager \<Rightarrow> ref \<times> 'a CacheManager" where
  "CacheManager_getCache name options m =
     (case DAList.lookup (caches m) name of
        Some r \<Rightarrow> (r, m)
      | None \<Rightarrow>
          (let r = length (store m)
           in (r, \<lparr>caches = DAList.update name r (caches m),
                   store = store m @ [Cache_constructor options]\<rparr>)))"

text \<open>
  The invariant of the registry: every registered reference points into the store, and no
  two names share a reference.
\<close>

definition registry_ok :: "'a CacheManager \<Rightarrow> bool" where
  "registry_ok m =
     (list_all (\<lambda>r. r < length (store m)) (map snd (DAList.impl_of (caches m))) \<and>
      distinct (map snd (DAList.impl_of (caches m))))"

text \<open>
  What callers do with the registry over time: they look names up, and they call the
  methods of a \<open>Cache\<close> object through its reference (\<open>set\<close>, \<open>clear\<close>, the sweep's
  \<open>cleanup\<close>, ...), which rewrites that object in the store and nothing else. Nothing in
  the class removes a name from the registry.
\<close>

datatype 'a registry_op =
    Lookup string "CacheOptions option"
  | Write ref "'a Cache \<Rightarrow> 'a Cache"

fun run_ops :: "'a registry_op list \<Rightarrow> 'a CacheManager \<Rightarrow> 'a CacheManager" where
  "run_ops [] m = m"
| "run_ops (Lookup n opts # ops) m = run_ops ops (snd (CacheManager_getCache n opts m))"
| "run_ops (Write r f # ops) m =
     run_ops ops
       (if r < length (store m) then m\<lparr>store := (store m)[r := f (store m ! r)]\<rparr> else m)"

text \<open>A sequence of lookups only.\<close>

fun lookups :: "(string \<times> CacheOptions option) list \<Rightarrow> 'a registry_op list" where
  "lookups [] = []"
| "lookups ((n, opts) # calls) = Lookup n opts # lookups calls"

section \<open>src/types/index.ts: the error classes\<close>

text \<open>
  What \<open>parseInt\<close> returns: \<open>NaN\<close>, or an integer. (The integer is the exact value of the
  digits; the platform rounds it to a double beyond \<open>2^53\<close>.)
\<close>

datatype parsed_int = NaN | Num int

text \<open>The \<open>details\<close> of an \<open>APIError\<close>: the body parsed as JSON, or else its raw text.\<close>

datatype 'j details = Parsed 'j | Raw string

text \<open>
  The four error classes of the repository, the plain \<open>Error\<close> of the language, and
  \<open>Foreign name\<close> for an error object raised by the platform (by \<open>fetch\<close>, by reading or
  parsing a body), of which the code inspects only the \<open>name\<close>.
\<close>

datatype 'j js_error =
    APIError nat string "'j details option"
  | ValidationError string string
  | AuthenticationError string
  | RateLimitError parsed_int string
  | Error string
  | Foreign string

fun error_name :: "'j js_error \<Rightarrow> string" where
  "error_name (APIError st msg d) = ''APIError''"
| "error_name (ValidationError field constraint) = ''ValidationError''"
| "error_name (AuthenticationError msg) = ''AuthenticationError''"
| "error_name (RateLimitError retryAfter msg) = ''RateLimitError''"
| "error_name (Error msg) = ''Error''"
| "error_name (Foreign name) = name"

text \<open>\<open>error instanceof APIError && error.status >= 500\<close>\<close>

fun is_APIError_5xx :: "'j js_error \<Rightarrow> bool" where
  "is_APIError_5xx (APIError st msg d) = (st \<ge> 500)"
| "is_APIError_5xx e = False"

section \<open>The platform's parseInt and base64\<close>

text \<open>
  \<open>parseInt(string)\<close> with no radix: leading white space is dropped, then an optional
  sign, then \<open>0x\<close> or \<open>0X\<close> selects radix 16 (else 10), then the longest run of digits
  of that radix is read; no digit gives \<open>NaN\<close>.
\<close>

definition is_white_space :: "char \<Rightarrow> bool" where
  "is_white_space c = (of_char c \<in> set [9, 10, 11, 12, 13, 32, 160 :: nat])"

definition digit_value :: "char \<Rightarrow> nat option" where
  "digit_value c =
     (let n = (of_char c :: nat)
      in if 48 \<le> n \<and> n \<le> 57 then Some (n - 48)
         else if 97 \<le> n \<and> n \<le> 122 then Some (n - 87)
         else if 65 \<le> n \<and> n \<le> 90 then Some (n - 55)
         else None)"

definition is_digit :: "nat \<Rightarrow> char \<Rightarrow> bool" where
  "is_digit R c = (case digit_value c of None \<Rightarrow> False | Some d \<Rightarrow> d < R)"

fun digits_value :: "nat \<Rightarrow> nat \<Rightarrow> string \<Rightarrow> nat" where
  "digits_value R acc [] = acc"
| "digits_value R acc (c # cs) =
     digits_value R (acc * R + (case digit_value c of None \<Rightarrow> 0 | Some d \<Rightarrow> d)) cs"

definition parseInt :: "string \<Rightarrow> parsed_int" where
  "parseInt inputString =
     (let S = dropWhile is_white_space inputString;
          sign = (case S of [] \<Rightarrow> 1 | c # r \<Rightarrow> if c = CHR ''-'' then - 1 else (1 :: int));
          S1 = (case S of [] \<Rightarrow> [] | c # r \<Rightarrow> if c = CHR ''-'' \<or> c = CHR ''+'' then r else S);
          hex = (case S1 of
                   a # b # r \<Rightarrow> a = CHR ''0'' \<and> (b = CHR ''x'' \<or> b = CHR ''X'')
                 | _ \<Rightarrow> False);
          R = (if hex then 16 else 10);
          S2 = (if hex then drop 2 S1 else S1);
          Z = takeWhile (is_digit R) S2
      in if Z = [] then NaN else Num (sign * int (digits_value R 0 Z)))"

text \<open>
  \<open>Buffer.from(s).toString('base64')\<close>: the bytes of the string, three at a time, as four
  characters of the standard alphabet, padded with \<open>=\<close>.
\<close>

definition base64_alphabet :: string where
  "base64_alphabet = ''ABCDEFGHIJKLMNOPQRSTUVWXYZabcdefghijklmnopqrstuvwxyz0123456789+/''"

definition sextet :: "nat \<Rightarrow> char" where
  "sextet n = base64_alphabet ! (n mod 64)"

fun base64_bytes :: "nat list \<Rightarrow> string" where
  "base64_bytes [] = []"
| "base64_bytes [a] =
     [sextet (a div 4), sextet (a mod 4 * 16), CHR ''='', CHR ''='']"
| "base64_bytes [a, b] =
     [sextet (a div 4), sextet (a mod 4 * 16 + b div 16), sextet (b mod 16 * 4), CHR ''='']"
| "base64_bytes (a # b # c # rest) =
     [sextet (a div 4), sextet (a mod 4 * 16 + b div 16),
      sextet (b mod 16 * 4 + c div 64), sextet (c mod 64)] @ base64_bytes rest"

definition base64 :: "string \<Rightarrow> string" where
  "base64 s = base64_bytes (map of_char s)"

section \<open>src/lib/langfuse-client.ts: the class LangfuseAPIClient\<close>

record LangfuseConfig =
  publicKey :: string
  secretKey :: string
  cfgBaseUrl :: "string option"
  cfgRequestTimeout :: "int option"
  cfgMaxRetries :: "int option"

record LangfuseAPIClient =
  auth :: string
  baseUrl :: string
  requestTimeout :: int
  maxRetries :: int

text \<open>
  The constructor throws when a credential is missing or empty. The timeout and the retry
  budget are whole numbers (\<open>src/index.ts\<close> reads them with \<open>parseInt\<close>).
\<close>

definition LangfuseAPIClient_constructor :: "LangfuseConfig \<Rightarrow> 'j js_error + LangfuseAPIClient" where
  "LangfuseAPIClient_constructor config =
     (if publicKey config = [] \<or> secretKey config = []
      then Inl (AuthenticationError ''Missing Langfuse API credentials'')
      else Inr \<lparr>auth = base64 (publicKey config @ '':'' @ secretKey config),
                baseUrl = or_string (cfgBaseUrl config) ''https://cloud.langfuse.com'',
                requestTimeout = or_number (cfgRequestTimeout config) 30000,
                maxRetries = or_number (cfgMaxRetries config) 3\<rparr>)"

text \<open>
  The network. One attempt of \<open>request\<close> calls \<open>fetch\<close> once; what comes back is either a
  rejection (an error object with a name: \<open>AbortError\<close> when the timeout fired,
  \<open>FetchError\<close>, \<open>TypeError\<close>, ...) or a response. Of a response the code reads the
  status, the \<open>Retry-After\<close> header (\<open>headers.get\<close> gives \<open>null\<close> when it is absent) and
  the body: reading it may reject, otherwise it is a text together with the value
  \<open>JSON.parse\<close> gives for it, if it parses. The environment of a call is a function from
  the attempt's \<open>retryCount\<close> to what that attempt meets.
\<close>

datatype 'j body = BodyFails string | Body string "'j option"

record 'j response =
  status :: nat
  header_Retry_After :: "string option"
  body :: "'j body"

datatype 'j attempt = Rejects string | Responds "'j response"

type_synonym 'j network = "nat \<Rightarrow> 'j attempt"

text \<open>\<open>response.ok\<close>: the status is in the range 200 to 299.\<close>

definition ok :: "'j response \<Rightarrow> bool" where
  "ok response = (200 \<le> status response \<and> status response \<le> 299)"

text \<open>
  The \<open>try\<close> block of \<open>request\<close>: it either throws into the \<open>catch\<close> block, or returns
  the promise of \<open>response.json()\<close>, whose rejection the \<open>catch\<close> block does not see
  (the promise is returned, not awaited).
\<close>

datatype 'j try_result = Threw "'j js_error" | Returned "'j js_error + 'j"

definition try_block :: "'j attempt \<Rightarrow> 'j try_result" where
  "try_block a =
     (case a of
        Rejects name \<Rightarrow> Threw (Foreign name)
      | Responds response \<Rightarrow>
          if status response = 429
          then Threw (RateLimitError (parseInt (or_string (header_Retry_After response) ''60''))
                        ''Rate limit exceeded'')
          else if status response = 401 \<or> status response = 403
          then Threw (AuthenticationError ''Authentication failed'')
          else if \<not> ok response
          then (case body response of
                  BodyFails name \<Rightarrow> Threw (Foreign name)
                | Body errorText parsed \<Rightarrow>
                    Threw (APIError (status response) ''API request failed''
                             (Some (case parsed of None \<Rightarrow> Raw errorText | Some j \<Rightarrow> Parsed j))))
          else (case body response of
                  BodyFails name \<Rightarrow> Returned (Inl (Foreign name))
                | Body t parsed \<Rightarrow>
                    (case parsed of
                       None \<Rightarrow> Returned (Inl (Foreign ''SyntaxError''))
                     | Some j \<Rightarrow> Returned (Inr j))))"

text \<open>
  What a call does, in order: a \<open>Fetch\<close> of a method, a URL and a body, or a \<open>Sleep\<close> of
  so many milliseconds.
\<close>

datatype 'd event = Fetch string string "'d option" | Sleep nat

text \<open>
  \<open>request(method, path, data, retryCount)\<close>: the events of the call and its result,
  \<open>Inl\<close> the error thrown to the caller, \<open>Inr\<close> the parsed body.
\<close>

function request ::
  "LangfuseAPIClient \<Rightarrow> 'j network \<Rightarrow> string \<Rightarrow> string \<Rightarrow> 'd option \<Rightarrow> nat
     \<Rightarrow> 'd event list \<times> ('j js_error + 'j)" where
  "request cl net method path d retryCount =
     (let ev = Fetch method (baseUrl cl @ ''/api/public/v2'' @ path) d
      in case try_block (net retryCount) of
           Returned r \<Rightarrow> ([ev], r)
         | Threw error \<Rightarrow>
             if error_name error = ''AbortError''
             then ([ev], Inl (APIError 408 ''Request timeout'' None))
             else if int retryCount < maxRetries cl \<and>
                     (error_name error = ''FetchError'' \<or> is_APIError_5xx error)
             then (let delay = 2 ^ retryCount * 1000;
                       (evs, r) = request cl net method path d (retryCount + 1)
                   in (ev # Sleep delay # evs, r))
             else ([ev], Inl error))"
  by pat_completeness auto
termination
  by (relation "measure (\<lambda>(cl, net, method, path, d, retryCount). nat (maxRetries cl - int retryCount))")
     auto

declare request.simps [simp del]

text \<open>
  \<open>CreatePromptParams\<close>. The declared types promise \<open>type\<close> to be \<open>text\<close> or \<open>chat\<close> and
  \<open>prompt\<close> to be a string or an array of messages; the checks of \<open>createPrompt\<close> are there
  for callers that do not keep the promise, so \<open>type\<close> is any string and \<open>prompt\<close> may be
  a value of another shape.
\<close>

record ChatMessage =
  role :: string
  content :: string

datatype prompt_value = PString string | PArray "ChatMessage list" | POther

record PromptConfig =
  model :: "string option"
  temperature :: "number option"
  maxTokens :: "number option"
  topP :: "number option"
  frequencyPenalty :: "number option"
  presencePenalty :: "number option"
  stopSequences :: "string list option"

record CreatePromptParams =
  name :: string
  prompt_type :: string
  prompt :: prompt_value
  config :: "PromptConfig option"
  labels :: "string list option"
  tags :: "string list option"
  commitMessage :: "string option"

fun isArray :: "prompt_value \<Rightarrow> bool" where
  "isArray (PArray ms) = True"
| "isArray v = False"

fun isString :: "prompt_value \<Rightarrow> bool" where
  "isString (PString s) = True"
| "isString v = False"

definition createPrompt ::
  "LangfuseAPIClient \<Rightarrow> 'j network \<Rightarrow> CreatePromptParams
     \<Rightarrow> CreatePromptParams event list \<times> ('j js_error + 'j)" where
  "createPrompt cl net params =
     (if prompt_type params = ''chat'' \<and> \<not> isArray (prompt params)
      then ([], Inl (Error ''Chat prompts must be an array of messages''))
      else if prompt_type params = ''text'' \<and> \<not> isString (prompt params)
      then ([], Inl (Error ''Text prompts must be a string''))
      else request cl net ''POST'' ''/prompts'' (Some params) 0)"

section \<open>Vocabulary of the properties\<close>

text \<open>
  An attempt fails with an API error of status 500 or more: its \<open>try\<close> block throws an
  \<open>APIError\<close> with such a status.
\<close>

definition fails_5xx :: "'j attempt \<Rightarrow> bool" where
  "fails_5xx a = (case try_block a of Threw e \<Rightarrow> is_APIError_5xx e | Returned r \<Rightarrow> False)"

text \<open>
  The events of the failed attempts \<open>k\<close> up to \<open>n - 1\<close>, each followed by its backoff: a
  fetch, then a sleep of \<open>2^i * 1000\<close> milliseconds after attempt \<open>i\<close>.
\<close>

definition retry_events :: "string \<Rightarrow> string \<Rightarrow> 'd option \<Rightarrow> nat \<Rightarrow> nat \<Rightarrow> 'd event list" where
  "retry_events method url d k n =
     concat (map (\<lambda>i. [Fetch method url d, Sleep (2 ^ i * 1000)]) [k..<n])"

text \<open>The result of a call is a \<open>ValidationError\<close> (with its field and constraint).\<close>

definition failed_with_ValidationError :: "'d event list \<times> ('j js_error + 'j) \<Rightarrow> bool" where
  "failed_with_ValidationError res =
     (case snd res of Inl (ValidationError field constraint) \<Rightarrow> True | _ \<Rightarrow> False)"

subsection \<open>Concrete clients, networks and parameters\<close>

definition client0 :: LangfuseAPIClient where
  "client0 = \<lparr>auth = ''cGs6c2s='', baseUrl = ''https://cloud.langfuse.com'',
              requestTimeout = 30000, maxRetries = 3\<rparr>"

definition ok_response :: "nat response" where
  "ok_response = \<lparr>status = 200, header_Retry_After = None, body = Body ''7'' (Some 7)\<rparr>"

definition unavailable :: "nat response" where
  "unavailable = \<lparr>status = 503, header_Retry_After = None, body = Body ''busy'' None\<rparr>"

definition rate_limited :: "nat response" where
  "rate_limited = \<lparr>status = 429, header_Retry_After = Some ''120'', body = Body [] None\<rparr>"

definition forbidden :: "nat response" where
  "forbidden = \<lparr>status = 403, header_Retry_After = None, body = Body [] None\<rparr>"

definition rate_limited_until_date :: "nat response" where
  "rate_limited_until_date =
     \<lparr>status = 429, header_Retry_After = Some ''Wed, 21 Oct 2015 07:28:00 GMT'',
      body = Body [] None\<rparr>"

definition net_timeout_then_ok :: "nat network" where
  "net_timeout_then_ok i = (if i = 0 then Rejects ''AbortError'' else Responds ok_response)"

definition net_503_twice_then_ok :: "nat network" where
  "net_503_twice_then_ok i = (if i < 2 then Responds unavailable else Responds ok_response)"

definition net_always_503 :: "nat network" where
  "net_always_503 i = Responds unavailable"

definition net_429_then_ok :: "nat network" where
  "net_429_then_ok i = (if i = 0 then Responds rate_limited else Responds ok_response)"

definition net_429_with_date :: "nat network" where
  "net_429_with_date i = Responds rate_limited_until_date"

definition net_403_then_ok :: "nat network" where
  "net_403_then_ok i = (if i = 0 then Responds forbidden else Responds ok_response)"

definition first_lookup :: "ref \<times> nat CacheManager" where
  "first_lookup =
     CacheManager_getCache ''prompts'' (Some \<lparr>ttl = Some 300, optKeyPrefix = None\<rparr>)
       CacheManager_constructor"

definition later_ops :: "nat registry_op list" where
  "later_ops = [Lookup ''prompts-list'' None, Write 0 Cache_clear, Lookup ''audit'' None]"

definition chat_with_string :: CreatePromptParams where
  "chat_with_string =
     \<lparr>name = ''greeting'', prompt_type = ''chat'', prompt = PString ''Hello'',
      config = None, labels = None, tags = None, commitMessage = None\<rparr>"

definition text_with_array :: CreatePromptParams where
  "text_with_array =
     \<lparr>name = ''greeting'', prompt_type = ''text'',
      prompt = PArray [\<lparr>role = ''user'', content = ''Hello''\<rparr>],
      config = None, labels = None, tags = None, commitMessage = None\<rparr>"

section \<open>Properties of the cache\<close>

lemma in_entries_iff:
  "(k, e) \<in> set (DAList.impl_of m) \<longleftrightarrow> DAList.lookup m k = Some e"
  by (simp add: DAList.lookup.rep_eq)

lemma map_of_filter_distinct:
  "distinct (map fst xs) \<Longrightarrow>
   map_of (filter P xs) k =
     (case map_of xs k of None \<Rightarrow> None | Some e \<Rightarrow> if P (k, e) then Some e else None)"
proof (induction xs)
  case Nil
  then show ?case by simp
next
  case (Cons x xs)
  obtain k' e' where x: "x = (k', e')" by (cases x)
  from Cons.prems have "k' \<notin> fst ` set xs" by (simp add: x)
  then have none: "map_of xs k' = None" by (simp add: map_of_eq_None_iff)
  from Cons show ?case
    by (force simp: x none split: option.splits)
qed

lemma lookup_filter:
  "DAList.lookup (DAList.filter P m) k =
     (case DAList.lookup m k of None \<Rightarrow> None | Some e \<Rightarrow> if P (k, e) then Some e else None)"
  unfolding DAList.lookup.rep_eq DAList.filter.rep_eq
  by (rule map_of_filter_distinct) simp

subsection \<open>Expiry: get and cleanup\<close>

lemma fst_Cache_get:
  "fst (Cache_get key now c) =
     (case DAList.lookup (cache c) (keyPrefix c @ key) of
        None \<Rightarrow> None
      | Some e \<Rightarrow> if expiresAt e < now then None else Some (data e))"
  by (simp add: Cache_get_def Let_def split: option.splits)

lemma impl_of_cleanup_loop:
  "DAList.impl_of (cleanup_loop now xs m) =
     filter (\<lambda>(k, e). \<not> (\<exists>e'. (k, e') \<in> set xs \<and> now > expiresAt e')) (DAList.impl_of m)"
proof (induction xs arbitrary: m)
  case Nil
  then show ?case by simp
next
  case (Cons x xs)
  obtain key entry where x: "x = (key, entry)" by (cases x)
  show ?case
    unfolding x
    by (auto simp: Cons.IH DAList.delete.rep_eq AList.delete_eq intro!: filter_cong)
qed

lemma cleanup_loop_filter:
  "cleanup_loop now (DAList.impl_of m) m = DAList.filter (\<lambda>(k, e). now \<le> expiresAt e) m"
  by (auto simp: alist_eq_iff impl_of_cleanup_loop DAList.filter.rep_eq in_entries_iff
           intro!: filter_cong)

text \<open>
  C3 (as amended). The code compares with \<open>now > expiresAt\<close> in both places, so an entry
  is absent exactly when it is missing or its expiry time is strictly before now: \<open>get\<close>
  returns the stored value while \<open>expiresAt \<ge> now\<close>, the boundary \<open>expiresAt = now\<close>
  included, and absent otherwise; \<open>cleanup\<close> keeps exactly the entries with
  \<open>expiresAt \<ge> now\<close>, in their order and with their values, and removes the others.
\<close>

theorem C3_absent_iff_expired_strictly:
  "fst (Cache_get key now c) =
     (case DAList.lookup (cache c) (keyPrefix c @ key) of
        None \<Rightarrow> None
      | Some e \<Rightarrow> if expiresAt e < now then None else Some (data e))
   \<and> Cache_cleanup now c = c\<lparr>cache := DAList.filter (\<lambda>(k, e). now \<le> expiresAt e) (cache c)\<rparr>
   \<and> DAList.lookup (cache (Cache_cleanup now c)) k =
     (case DAList.lookup (cache c) k of
        None \<Rightarrow> None
      | Some e \<Rightarrow> if expiresAt e < now then None else Some e)"
  by (auto simp: fst_Cache_get Cache_cleanup_def cleanup_loop_filter lookup_filter
           split: option.splits)

text \<open>
  The claim C3 as the specification states it fails at the boundary: an entry stored at
  time 0 with a time-to-live of one second expires at 1000; at \<open>now = 1000\<close> its expiry
  time is at (not after) now, yet \<open>get\<close> returns the value and \<open>cleanup\<close> keeps the entry.
\<close>

theorem C3_boundary_counterexample:
  "DAList.lookup (cache (Cache_set ''k'' (1::nat) (Some 1) 0 (Cache_constructor None))) ''k''
     = Some \<lparr>data = 1, expiresAt = 1000\<rparr>
   \<and> fst (Cache_get ''k'' 1000 (Cache_set ''k'' (1::nat) (Some 1) 0 (Cache_constructor None)))
     = Some 1
   \<and> Cache_cleanup 1000 (Cache_set ''k'' (1::nat) (Some 1) 0 (Cache_constructor None))
     = Cache_set ''k'' (1::nat) (Some 1) 0 (Cache_constructor None)"
  by (simp add: Cache_set_def Cache_get_def Cache_cleanup_def Cache_constructor_def
                empty_options_def or_number_def or_string_def
                alist_eq_iff DAList.update.rep_eq DAList.empty.rep_eq DAList.delete.rep_eq
                DAList.filter.rep_eq)

subsection \<open>set\<close>

text \<open>
  C4 (as amended). \<open>set(key, value, ttl)\<close> stores under prefix + key, whatever was there
  before, an entry holding the value with \<open>expiresAt = now + t * 1000\<close>, where the
  effective time-to-live \<open>t\<close> is the override when one is given and is not 0, and the
  default otherwise (an override of 0 is falsy for \<open>||\<close>); when \<open>t\<close> is positive an
  immediate \<open>get(key)\<close> returns the value.
\<close>

theorem C4_set_then_get:
  "DAList.lookup (cache (Cache_set key v t now c)) (keyPrefix c @ key) =
     Some \<lparr>data = v,
           expiresAt = now + (case t of None \<Rightarrow> defaultTTL c
                              | Some x \<Rightarrow> if x = 0 then defaultTTL c else x) * 1000\<rparr>
   \<and> (0 < (case t of None \<Rightarrow> defaultTTL c | Some x \<Rightarrow> if x = 0 then defaultTTL c else x)
        \<longrightarrow> fst (Cache_get key now (Cache_set key v t now c)) = Some v)"
  by (simp add: Cache_set_def Cache_get_def or_number_def Let_def split: option.splits)

theorem C4_set_then_get_witness:
  "(0::rat) < 2
   \<and> DAList.lookup (cache (Cache_set ''k'' (7::nat) (Some 2) 50 (Cache_constructor None))) ''k''
       = Some \<lparr>data = 7, expiresAt = 2050\<rparr>
   \<and> fst (Cache_get ''k'' 50 (Cache_set ''k'' (7::nat) (Some 2) 50 (Cache_constructor None)))
       = Some 7"
  using C4_set_then_get [of "''k''" "7::nat" "Some 2" 50 "Cache_constructor None"]
  by (simp add: Cache_constructor_def empty_options_def or_string_def)

text \<open>
  The claim C4 as the specification states it fails for an override of 0: it asks for
  \<open>expiresAt = now + 0 * 1000\<close>, but the code falls back to the default of 300 seconds.
\<close>

theorem C4_zero_ttl_counterexample:
  "DAList.lookup (cache (Cache_set ''k'' (7::nat) (Some 0) 50 (Cache_constructor None))) ''k''
     = Some \<lparr>data = 7, expiresAt = 300050\<rparr>
   \<and> DAList.lookup (cache (Cache_set ''k'' (7::nat) (Some 0) 50 (Cache_constructor None))) ''k''
     \<noteq> Some \<lparr>data = 7, expiresAt = 50 + 0 * 1000\<rparr>"
  by (simp add: Cache_set_def Cache_constructor_def empty_options_def or_number_def
                or_string_def)

subsection \<open>invalidatePattern\<close>

lemma impl_of_invalidate_loop:
  "DAList.impl_of (invalidate_loop r ks m) =
     filter (\<lambda>(k, e). \<not> (k \<in> set ks \<and> test r k)) (DAList.impl_of m)"
proof (induction ks arbitrary: m)
  case Nil
  then show ?case by simp
next
  case (Cons key ks)
  show ?case
    by (auto simp: Cons.IH DAList.delete.rep_eq AList.delete_eq intro!: filter_cong)
qed

lemma invalidate_loop_filter:
  "invalidate_loop r (map fst (DAList.impl_of m)) m = DAList.filter (\<lambda>(k, e). \<not> test r k) m"
  by (force simp: alist_eq_iff impl_of_invalidate_loop DAList.filter.rep_eq intro!: filter_cong)

lemma RegExp_plain:
  "plain p \<Longrightarrow> RegExp p = Inr (map (\<lambda>c. Once (Lit c)) p)"
proof (induction p rule: RegExp.induct)
  case 1
  then show ?case by simp
next
  case (2 c cs)
  then show ?case
    by (cases cs) (auto simp: plain_def is_quantifier_def cons_term_def)
qed

lemma match_here_plain:
  "match_here (map (\<lambda>c. Once (Lit c)) p) bol s \<longleftrightarrow> prefix p s"
  by (induction p arbitrary: bol s) (auto split: list.splits simp: prefix_Cons)

lemma search_plain:
  "search (map (\<lambda>c. Once (Lit c)) p) bol s \<longleftrightarrow> sublist p s"
  by (induction s arbitrary: bol) (auto simp: match_here_plain sublist_Cons_right)

text \<open>
  C9 (as amended). \<open>invalidatePattern(pattern)\<close> reads the pattern as a regular
  expression. When the pattern does not compile the call throws and removes nothing.
  Otherwise it removes exactly the entries whose prefixed key the expression matches
  somewhere (no full match is required), whatever their expiry state, and leaves every
  other entry as it was, in place. A plain pattern, one without characters of the pattern
  syntax, matches exactly the keys that contain it.
\<close>

theorem C9_invalidatePattern_removes_matches:
  "Cache_invalidatePattern pattern c =
     (case RegExp pattern of
        Inl e \<Rightarrow> Inl e
      | Inr r \<Rightarrow> Inr (c\<lparr>cache := DAList.filter (\<lambda>(k, e). \<not> test r k) (cache c)\<rparr>))
   \<and> (plain pattern \<longrightarrow>
        Cache_invalidatePattern pattern c =
          Inr (c\<lparr>cache := DAList.filter (\<lambda>(k, e). \<not> sublist pattern k) (cache c)\<rparr>))"
  by (auto simp: Cache_invalidatePattern_def invalidate_loop_filter RegExp_plain test_def
                 search_plain
           split: sum.splits)

theorem C9_invalidatePattern_removes_matches_witness:
  "plain ''prompt:''
   \<and> Cache_invalidatePattern ''prompt:''
         (Cache_set ''other:v1'' (3::nat) None 0
           (Cache_set ''prompt:v1'' 1 None 0 (Cache_constructor None)))
       = Inr (Cache_set ''other:v1'' 3 None 0 (Cache_constructor None))"
  using C9_invalidatePattern_removes_matches
          [of "''prompt:''"
              "Cache_set ''other:v1'' (3::nat) None 0
                 (Cache_set ''prompt:v1'' 1 None 0 (Cache_constructor None))"]
  by (simp add: Cache_invalidatePattern_def Cache_set_def Cache_constructor_def empty_options_def
                or_number_def or_string_def is_quantifier_def beyond_fragment_def cons_term_def
                quantified_def test_def plain_def sublist_code
                alist_eq_iff DAList.update.rep_eq DAList.empty.rep_eq DAList.delete.rep_eq
                DAList.filter.rep_eq)

text \<open>
  The claim C9 as the specification states it, removal of exactly the keys that contain
  the pattern, fails for patterns with characters of the pattern syntax. The key \<open>a+b\<close>
  contains the pattern \<open>a+b\<close> and is not removed; the key \<open>axb\<close> does not contain the
  pattern \<open>a.b\<close> (a valid prompt name) and is removed.
\<close>

theorem C9_substring_counterexample:
  "sublist ''a+b'' ''a+b''
   \<and> Cache_invalidatePattern ''a+b'' (Cache_set ''a+b'' (1::nat) None 0 (Cache_constructor None))
       = Inr (Cache_set ''a+b'' 1 None 0 (Cache_constructor None))
   \<and> \<not> sublist ''a.b'' ''axb''
   \<and> Cache_invalidatePattern ''a.b'' (Cache_set ''axb'' (1::nat) None 0 (Cache_constructor None))
       = Inr (Cache_constructor None)"
  by (simp add: Cache_invalidatePattern_def Cache_set_def Cache_constructor_def empty_options_def
                or_number_def or_string_def is_quantifier_def beyond_fragment_def cons_term_def
                quantified_def test_def plain_def sublist_code
                alist_eq_iff DAList.update.rep_eq DAList.empty.rep_eq DAList.delete.rep_eq
                DAList.filter.rep_eq)

section \<open>Properties of the registry\<close>

lemma update_fresh:
  "k \<notin> fst ` set al \<Longrightarrow> AList.update k v al = al @ [(k, v)]"
  by (induction al) auto

lemma lookup_None_fresh:
  "DAList.lookup m k = None \<Longrightarrow> k \<notin> fst ` set (DAList.impl_of m)"
  by (simp add: DAList.lookup.rep_eq map_of_eq_None_iff)

lemma impl_of_update_fresh:
  "DAList.lookup m k = None \<Longrightarrow>
   DAList.impl_of (DAList.update k v m) = DAList.impl_of m @ [(k, v)]"
  by (simp add: DAList.update.rep_eq update_fresh lookup_None_fresh)

lemma lookup_Some_snd:
  "DAList.lookup m k = Some r \<Longrightarrow> r \<in> snd ` set (DAList.impl_of m)"
  by (force simp: in_entries_iff [symmetric])

lemma registry_ok_bound:
  "registry_ok m \<Longrightarrow> DAList.lookup (caches m) k = Some r \<Longrightarrow> r < length (store m)"
  by (auto simp: registry_ok_def list_all_iff dest!: lookup_Some_snd)

lemma distinct_snd_inj:
  "distinct (map snd xs) \<Longrightarrow> (k1, r) \<in> set xs \<Longrightarrow> (k2, r) \<in> set xs \<Longrightarrow> k1 = k2"
  by (induction xs) force+

lemma registry_ok_inj:
  "registry_ok m \<Longrightarrow> DAList.lookup (caches m) k1 = Some r \<Longrightarrow>
   DAList.lookup (caches m) k2 = Some r \<Longrightarrow> k1 = k2"
  unfolding registry_ok_def in_entries_iff [symmetric]
  by (blast intro: distinct_snd_inj)

text \<open>The registry starts in a state that satisfies the invariant, and \<open>getCache\<close> keeps it.\<close>

lemma registry_ok_constructor: "registry_ok CacheManager_constructor"
  by (simp add: registry_ok_def CacheManager_constructor_def DAList.empty.rep_eq)

lemma registry_ok_getCache:
  assumes "registry_ok m"
  shows "registry_ok (snd (CacheManager_getCache nm opts m))"
proof (cases "DAList.lookup (caches m) nm")
  case None
  have "\<And>r. r \<in> snd ` set (DAList.impl_of (caches m)) \<Longrightarrow> r < length (store m)"
    using assms by (auto simp: registry_ok_def list_all_iff)
  then show ?thesis
    using assms None
    by (fastforce simp: CacheManager_getCache_def registry_ok_def impl_of_update_fresh Let_def
                        list_all_iff)
next
  case (Some r)
  then show ?thesis using assms by (simp add: CacheManager_getCache_def)
qed

lemma getCache_registered:
  "DAList.lookup (caches (snd (CacheManager_getCache nm opts m))) nm
     = Some (fst (CacheManager_getCache nm opts m))"
  by (simp add: CacheManager_getCache_def Let_def split: option.splits)

lemma getCache_again:
  "DAList.lookup (caches m) nm = Some r \<Longrightarrow> CacheManager_getCache nm opts m = (r, m)"
  by (simp add: CacheManager_getCache_def)

lemma getCache_other:
  assumes "registry_ok m" "DAList.lookup (caches m) nm = Some r" "other \<noteq> nm"
  shows "fst (CacheManager_getCache other opts m) \<noteq> r"
proof (cases "DAList.lookup (caches m) other")
  case None
  then show ?thesis
    using registry_ok_bound [OF assms(1,2)] by (simp add: CacheManager_getCache_def Let_def)
next
  case (Some r')
  then show ?thesis
    using registry_ok_inj [OF assms(1), of other r nm] assms(2,3)
    by (auto simp: CacheManager_getCache_def)
qed

lemma getCache_keeps_registered:
  "DAList.lookup (caches m) nm = Some r \<Longrightarrow>
   DAList.lookup (caches (snd (CacheManager_getCache n opts m))) nm = Some r"
  by (cases "n = nm") (auto simp: CacheManager_getCache_def Let_def split: option.splits)

lemma getCache_keeps_objects:
  "r < length (store m) \<Longrightarrow>
   length (store m) \<le> length (store (snd (CacheManager_getCache n opts m))) \<and>
   store (snd (CacheManager_getCache n opts m)) ! r = store m ! r"
  by (auto simp: CacheManager_getCache_def Let_def nth_append split: option.splits)

lemma registry_ok_write:
  "registry_ok m \<Longrightarrow> registry_ok (m\<lparr>store := (store m)[r := c]\<rparr>)"
  by (simp add: registry_ok_def)

lemma run_keeps_registered:
  "registry_ok m \<Longrightarrow> DAList.lookup (caches m) nm = Some r \<Longrightarrow>
   registry_ok (run_ops ops m) \<and> DAList.lookup (caches (run_ops ops m)) nm = Some r"
proof (induction ops arbitrary: m)
  case Nil
  then show ?case by simp
next
  case (Cons op ops)
  show ?case
  proof (cases op)
    case (Lookup n opts)
    with Cons show ?thesis
      by (simp add: registry_ok_getCache getCache_keeps_registered)
  next
    case (Write w f)
    with Cons show ?thesis
      by (simp add: registry_ok_write)
  qed
qed

lemma run_lookups_keeps_objects:
  "r < length (store m) \<Longrightarrow>
   r < length (store (run_ops (lookups calls) m)) \<and> store (run_ops (lookups calls) m) ! r = store m ! r"
proof (induction calls arbitrary: m)
  case Nil
  then show ?case by simp
next
  case (Cons call calls)
  obtain n opts where c: "call = (n, opts)" by (cases call)
  from Cons.prems getCache_keeps_objects [of r m n opts]
  have step: "r < length (store (snd (CacheManager_getCache n opts m)))"
             "store (snd (CacheManager_getCache n opts m)) ! r = store m ! r"
    by auto
  from Cons.IH [OF step(1)] step(2) show ?case by (simp add: c)
qed

text \<open>
  C8. In a registry that satisfies its invariant (as the new registry does, and as every
  lookup and every write to an object preserves), a lookup of a name returns a reference
  that every later lookup of the same name returns again, with whatever options, and
  whatever lookups of other names and writes to objects come in between. A repeated
  lookup changes nothing, and no lookup of any name touches the object: it keeps the
  configuration of its first registration, which for a name not registered before is the
  one built from the options of that first call. A lookup of a different name, at once or
  later, returns a different reference.
\<close>

theorem C8_getCache_same_object:
  assumes "registry_ok m"
  shows "CacheManager_getCache nm opts2 (snd (CacheManager_getCache nm opts1 m))
           = CacheManager_getCache nm opts1 m
         \<and> fst (CacheManager_getCache nm opts2
                  ((snd (CacheManager_getCache nm opts1 m))\<lparr>store := s\<rparr>))
             = fst (CacheManager_getCache nm opts1 m)
         \<and> registry_ok (snd (CacheManager_getCache nm opts1 m))
         \<and> fst (CacheManager_getCache nm opts1 m)
             < length (store (snd (CacheManager_getCache nm opts1 m)))
         \<and> (DAList.lookup (caches m) nm = None \<longrightarrow>
              store (snd (CacheManager_getCache nm opts1 m))
                ! fst (CacheManager_getCache nm opts1 m)
                = Cache_constructor opts1)
         \<and> (other \<noteq> nm \<longrightarrow>
              fst (CacheManager_getCache other opts3 (snd (CacheManager_getCache nm opts1 m)))
                \<noteq> fst (CacheManager_getCache nm opts1 m))
         \<and> registry_ok (run_ops ops (snd (CacheManager_getCache nm opts1 m)))
         \<and> CacheManager_getCache nm opts2 (run_ops ops (snd (CacheManager_getCache nm opts1 m)))
             = (fst (CacheManager_getCache nm opts1 m),
                run_ops ops (snd (CacheManager_getCache nm opts1 m)))
         \<and> (other \<noteq> nm \<longrightarrow>
              fst (CacheManager_getCache other opts3
                     (run_ops ops (snd (CacheManager_getCache nm opts1 m))))
                \<noteq> fst (CacheManager_getCache nm opts1 m))
         \<and> store (run_ops (lookups calls) (snd (CacheManager_getCache nm opts1 m)))
               ! fst (CacheManager_getCache nm opts1 m)
             = store (snd (CacheManager_getCache nm opts1 m))
                 ! fst (CacheManager_getCache nm opts1 m)
         \<and> (DAList.lookup (caches m) nm = None \<longrightarrow>
              store (run_ops (lookups calls) (snd (CacheManager_getCache nm opts1 m)))
                ! fst (CacheManager_getCache nm opts1 m)
                = Cache_constructor opts1)"
proof -
  let ?g = "CacheManager_getCache nm opts1 m"
  have ok: "registry_ok (snd ?g)" by (rule registry_ok_getCache [OF assms])
  have reg: "DAList.lookup (caches (snd ?g)) nm = Some (fst ?g)" by (rule getCache_registered)
  have again: "CacheManager_getCache nm opts2 (snd ?g) = ?g"
    using getCache_again [OF reg, of opts2] by simp
  have written: "fst (CacheManager_getCache nm opts2 ((snd ?g)\<lparr>store := s\<rparr>)) = fst ?g"
    using reg by (simp add: CacheManager_getCache_def)
  have bound: "fst ?g < length (store (snd ?g))" by (rule registry_ok_bound [OF ok reg])
  have fresh: "DAList.lookup (caches m) nm = None \<longrightarrow>
                 store (snd ?g) ! fst ?g = Cache_constructor opts1"
    by (simp add: CacheManager_getCache_def Let_def)
  have other: "other \<noteq> nm \<longrightarrow> fst (CacheManager_getCache other opts3 (snd ?g)) \<noteq> fst ?g"
    using getCache_other [OF ok reg] by blast
  have later: "registry_ok (run_ops ops (snd ?g))"
              "DAList.lookup (caches (run_ops ops (snd ?g))) nm = Some (fst ?g)"
    using run_keeps_registered [OF ok reg, of ops] by simp_all
  have again_later: "CacheManager_getCache nm opts2 (run_ops ops (snd ?g)) = (fst ?g, run_ops ops (snd ?g))"
    by (rule getCache_again [OF later(2)])
  have other_later:
    "other \<noteq> nm \<longrightarrow> fst (CacheManager_getCache other opts3 (run_ops ops (snd ?g))) \<noteq> fst ?g"
    using getCache_other [OF later] by blast
  have same_object: "store (run_ops (lookups calls) (snd ?g)) ! fst ?g = store (snd ?g) ! fst ?g"
    using run_lookups_keeps_objects [OF bound, of calls] by simp
  have first_wins: "DAList.lookup (caches m) nm = None \<longrightarrow>
                 store (run_ops (lookups calls) (snd ?g)) ! fst ?g = Cache_constructor opts1"
    using same_object fresh by simp
  from again written ok bound fresh other later(1) again_later other_later same_object first_wins
  show ?thesis by blast
qed


theorem C8_getCache_same_object_witness:
  "registry_ok (CacheManager_constructor :: nat CacheManager)
   \<and> DAList.lookup (caches (CacheManager_constructor :: nat CacheManager)) ''prompts'' = None
   \<and> ''prompts-list'' \<noteq> ''prompts''
   \<and> fst first_lookup = 0
   \<and> CacheManager_getCache ''prompts'' (Some \<lparr>ttl = Some 60, optKeyPrefix = None\<rparr>)
         (snd first_lookup) = first_lookup
   \<and> store (snd first_lookup) ! fst first_lookup
       = Cache_constructor (Some \<lparr>ttl = Some 300, optKeyPrefix = None\<rparr>)
   \<and> fst (CacheManager_getCache ''prompts-list'' None (snd first_lookup)) \<noteq> fst first_lookup
   \<and> CacheManager_getCache ''prompts'' (Some \<lparr>ttl = Some 60, optKeyPrefix = None\<rparr>)
         (run_ops later_ops (snd first_lookup))
       = (fst first_lookup, run_ops later_ops (snd first_lookup))
   \<and> fst (CacheManager_getCache ''prompts-list'' None (run_ops later_ops (snd first_lookup))) = 1
   \<and> fst (CacheManager_getCache ''prompts-list'' None (run_ops later_ops (snd first_lookup)))
       \<noteq> fst first_lookup
   \<and> store (run_ops (lookups [(''prompts-list'', None), (''audit'', None)]) (snd first_lookup))
         ! fst first_lookup
       = Cache_constructor (Some \<lparr>ttl = Some 300, optKeyPrefix = None\<rparr>)"
proof -
  note inst = C8_getCache_same_object
          [OF registry_ok_constructor [where 'a = nat],
           of "''prompts''" "Some \<lparr>ttl = Some 60, optKeyPrefix = None\<rparr>"
              "Some \<lparr>ttl = Some 300, optKeyPrefix = None\<rparr>" "[]" "''prompts-list''" None
              later_ops "[(''prompts-list'', None), (''audit'', None)]",
           folded first_lookup_def]
  have fresh: "DAList.lookup (caches (CacheManager_constructor :: nat CacheManager)) ''prompts'' = None"
    by (simp add: CacheManager_constructor_def)
  have r0: "fst first_lookup = 0"
    by (simp add: first_lookup_def CacheManager_getCache_def CacheManager_constructor_def)
  have r1: "fst (CacheManager_getCache ''prompts-list'' None (run_ops later_ops (snd first_lookup))) = 1"
    by (simp add: first_lookup_def later_ops_def CacheManager_getCache_def
                  CacheManager_constructor_def)
  show ?thesis
    using inst fresh r0 r1 registry_ok_constructor [where 'a = nat] by simp
qed

section \<open>Properties of the constructors\<close>

text \<open>
  C10. A client that the constructor builds from a configuration with
  \<open>requestTimeout = 0\<close> has the timeout 30000, and one built with \<open>maxRetries = 0\<close> has
  the retry budget 3; a cache built with \<open>ttl = 0\<close> has the default time-to-live 300. No
  constructed client has a timeout or a retry budget of 0 and no constructed cache a
  default time-to-live of 0: passing 0 does not switch retries or caching off.
\<close>

theorem C10_zero_is_default:
  "(LangfuseAPIClient_constructor cfg = (Inr cl :: unit js_error + LangfuseAPIClient) \<longrightarrow>
      (cfgRequestTimeout cfg = Some 0 \<longrightarrow> requestTimeout cl = 30000)
      \<and> (cfgMaxRetries cfg = Some 0 \<longrightarrow> maxRetries cl = 3)
      \<and> requestTimeout cl \<noteq> 0 \<and> maxRetries cl \<noteq> 0)
   \<and> defaultTTL (Cache_constructor (Some (opts\<lparr>ttl := Some 0\<rparr>))) = 300
   \<and> defaultTTL (Cache_constructor options) \<noteq> 0"
  by (auto simp: LangfuseAPIClient_constructor_def Cache_constructor_def or_number_def
                 empty_options_def
           split: if_splits option.splits)

theorem C10_zero_is_default_witness:
  "LangfuseAPIClient_constructor
      \<lparr>publicKey = ''pk'', secretKey = ''sk'', cfgBaseUrl = None,
        cfgRequestTimeout = Some 0, cfgMaxRetries = Some 0\<rparr>
     = (Inr \<lparr>auth = ''cGs6c2s='', baseUrl = ''https://cloud.langfuse.com'',
             requestTimeout = 30000, maxRetries = 3\<rparr> :: unit js_error + LangfuseAPIClient)
   \<and> requestTimeout \<lparr>auth = ''cGs6c2s='', baseUrl = ''https://cloud.langfuse.com'',
             requestTimeout = 30000, maxRetries = 3\<rparr> = 30000
   \<and> maxRetries \<lparr>auth = ''cGs6c2s='', baseUrl = ''https://cloud.langfuse.com'',
             requestTimeout = 30000, maxRetries = 3\<rparr> = 3"
  using C10_zero_is_default
          [of "\<lparr>publicKey = ''pk'', secretKey = ''sk'', cfgBaseUrl = None,
                cfgRequestTimeout = Some 0, cfgMaxRetries = Some 0\<rparr>"
              "\<lparr>auth = ''cGs6c2s='', baseUrl = ''https://cloud.langfuse.com'',
                requestTimeout = 30000, maxRetries = 3\<rparr>"]
  by (simp add: LangfuseAPIClient_constructor_def or_number_def or_string_def base64_def
                sextet_def base64_alphabet_def)

section \<open>Properties of the request path\<close>

lemma upt_2: "[0..<2] = [0, Suc 0]"
  by (simp add: numeral_2_eq_2)

lemma upt_3: "[0..<3] = [0, Suc 0, 2]"
  by (simp add: numeral_3_eq_3 numeral_2_eq_2)

lemma fails_5xx_error:
  "fails_5xx a \<Longrightarrow> \<exists>st msg dt. try_block a = Threw (APIError st msg dt) \<and> 500 \<le> st"
  unfolding fails_5xx_def
  by (cases "try_block a"; simp) (metis is_APIError_5xx.elims(2))

text \<open>One retry: a failed attempt with budget left is followed by its backoff and the next attempt.\<close>

lemma request_retry_step:
  assumes "fails_5xx (net k)" "int k < maxRetries cl"
  shows "request cl net method path d k =
           (Fetch method (baseUrl cl @ ''/api/public/v2'' @ path) d # Sleep (2 ^ k * 1000)
              # fst (request cl net method path d (Suc k)),
            snd (request cl net method path d (Suc k)))"
proof -
  obtain st msg dt where t: "try_block (net k) = Threw (APIError st msg dt)" "500 \<le> st"
    using fails_5xx_error [OF assms(1)] by blast
  show ?thesis
    by (subst request.simps) (simp add: t assms(2) Let_def split: prod.splits)
qed

lemma request_retry_chain:
  assumes "\<forall>i. k \<le> i \<and> i < n \<longrightarrow> fails_5xx (net i)" "int n \<le> maxRetries cl" "k \<le> n"
  shows "request cl net method path d k =
           (retry_events method (baseUrl cl @ ''/api/public/v2'' @ path) d k n
              @ fst (request cl net method path d n),
            snd (request cl net method path d n))"
  using assms
proof (induction "n - k" arbitrary: k)
  case 0
  then show ?case by (simp add: retry_events_def)
next
  case (Suc m)
  then have lt: "k < n" and f: "fails_5xx (net k)" by auto
  have budget: "int k < maxRetries cl" using lt Suc.prems(2) by linarith
  have IH: "request cl net method path d (Suc k) =
           (retry_events method (baseUrl cl @ ''/api/public/v2'' @ path) d (Suc k) n
              @ fst (request cl net method path d n),
            snd (request cl net method path d n))"
    using Suc.hyps(1) [of "Suc k"] Suc.hyps(2) Suc.prems lt by auto
  show ?case
    by (simp add: request_retry_step [of net k cl, OF f budget] IH retry_events_def
                  upt_conv_Cons [OF lt])
qed

lemma request_success:
  "try_block (net k) = Returned r \<Longrightarrow>
   request cl net method path d k = ([Fetch method (baseUrl cl @ ''/api/public/v2'' @ path) d], r)"
  by (subst request.simps) (simp add: Let_def)

lemma request_exhausted:
  assumes "fails_5xx (net k)" "\<not> int k < maxRetries cl"
  shows "\<exists>e. try_block (net k) = Threw e \<and> is_APIError_5xx e \<and>
           request cl net method path d k =
             ([Fetch method (baseUrl cl @ ''/api/public/v2'' @ path) d], Inl e)"
proof -
  obtain st msg dt where t: "try_block (net k) = Threw (APIError st msg dt)" "500 \<le> st"
    using fails_5xx_error [OF assms(1)] by blast
  show ?thesis
    by (subst request.simps) (simp add: t assms(2) Let_def)
qed

subsection \<open>Retries of 5xx failures\<close>

text \<open>
  C5. When the attempts 1 to N each fail with an API error of status 500 or more, attempt
  N + 1 succeeds with a value and N is below \<open>maxRetries\<close>, the call returns that value,
  after N + 1 fetches with a wait of \<open>2^i * 1000\<close> milliseconds after the failed attempt
  \<open>i + 1\<close> (1000, 2000, 4000, ...). When every attempt up to the last one the budget allows
  fails so, the call makes \<open>maxRetries\<close> retries with these waits and then throws the
  error of the last attempt.
\<close>

theorem C5_retry_5xx_with_backoff:
  "((\<forall>i<n. fails_5xx (net i)) \<and> try_block (net n) = Returned (Inr v) \<and> int n < maxRetries cl
      \<longrightarrow> request cl net method path d 0 =
            (retry_events method (baseUrl cl @ ''/api/public/v2'' @ path) d 0 n
               @ [Fetch method (baseUrl cl @ ''/api/public/v2'' @ path) d], Inr v))
   \<and> ((\<forall>i \<le> nat (maxRetries cl). fails_5xx (net i))
      \<longrightarrow> (\<exists>e. try_block (net (nat (maxRetries cl))) = Threw e \<and> is_APIError_5xx e \<and>
             request cl net method path d 0 =
               (retry_events method (baseUrl cl @ ''/api/public/v2'' @ path) d 0
                  (nat (maxRetries cl))
                  @ [Fetch method (baseUrl cl @ ''/api/public/v2'' @ path) d], Inl e)))"
proof (intro conjI impI)
  assume "(\<forall>i<n. fails_5xx (net i)) \<and> try_block (net n) = Returned (Inr v)
            \<and> int n < maxRetries cl"
  then show "request cl net method path d 0 =
            (retry_events method (baseUrl cl @ ''/api/public/v2'' @ path) d 0 n
               @ [Fetch method (baseUrl cl @ ''/api/public/v2'' @ path) d], Inr v)"
    using request_retry_chain [of 0 n net cl "method" "path" d]
    by (simp add: request_success)
next
  let ?M = "nat (maxRetries cl)"
  assume a: "\<forall>i \<le> ?M. fails_5xx (net i)"
  then have last: "fails_5xx (net ?M)" by simp
  have nb: "\<not> int ?M < maxRetries cl" by simp
  obtain e where e: "try_block (net ?M) = Threw e" "is_APIError_5xx e"
     "request cl net method path d ?M =
        ([Fetch method (baseUrl cl @ ''/api/public/v2'' @ path) d], Inl e)"
    using request_exhausted [of net ?M cl, OF last nb] by blast
  show "\<exists>e. try_block (net ?M) = Threw e \<and> is_APIError_5xx e \<and>
             request cl net method path d 0 =
               (retry_events method (baseUrl cl @ ''/api/public/v2'' @ path) d 0 ?M
                  @ [Fetch method (baseUrl cl @ ''/api/public/v2'' @ path) d], Inl e)"
  proof (cases "0 \<le> maxRetries cl")
    case True
    then have "int ?M \<le> maxRetries cl" by simp
    with a request_retry_chain [of 0 ?M net cl "method" "path" d] e show ?thesis by auto
  next
    case False
    then have "?M = 0" by simp
    with e show ?thesis by (auto simp: retry_events_def)
  qed
qed

theorem C5_retry_5xx_with_backoff_witness:
  "fails_5xx (net_503_twice_then_ok 0) \<and> fails_5xx (net_503_twice_then_ok 1)
   \<and> try_block (net_503_twice_then_ok 2) = Returned (Inr 7)
   \<and> 2 < maxRetries client0
   \<and> request client0 net_503_twice_then_ok ''GET'' ''/prompts'' (None :: unit option) 0 =
       ([Fetch ''GET'' ''https://cloud.langfuse.com/api/public/v2/prompts'' None, Sleep 1000,
         Fetch ''GET'' ''https://cloud.langfuse.com/api/public/v2/prompts'' None, Sleep 2000,
         Fetch ''GET'' ''https://cloud.langfuse.com/api/public/v2/prompts'' None], Inr 7)
   \<and> fails_5xx (net_always_503 0) \<and> fails_5xx (net_always_503 1)
   \<and> fails_5xx (net_always_503 2) \<and> fails_5xx (net_always_503 3)
   \<and> nat (maxRetries client0) = 3
   \<and> request client0 net_always_503 ''GET'' ''/prompts'' (None :: unit option) 0 =
       ([Fetch ''GET'' ''https://cloud.langfuse.com/api/public/v2/prompts'' None, Sleep 1000,
         Fetch ''GET'' ''https://cloud.langfuse.com/api/public/v2/prompts'' None, Sleep 2000,
         Fetch ''GET'' ''https://cloud.langfuse.com/api/public/v2/prompts'' None, Sleep 4000,
         Fetch ''GET'' ''https://cloud.langfuse.com/api/public/v2/prompts'' None],
        Inl (APIError 503 ''API request failed'' (Some (Raw ''busy''))))"
proof -
  have a1: "\<forall>i<2. fails_5xx (net_503_twice_then_ok i)"
    by (simp add: net_503_twice_then_ok_def unavailable_def fails_5xx_def try_block_def ok_def)
  have a2: "try_block (net_503_twice_then_ok 2) = Returned (Inr 7)"
    by (simp add: net_503_twice_then_ok_def ok_response_def try_block_def ok_def)
  have a3: "int 2 < maxRetries client0"
    by (simp add: client0_def)
  have b1: "\<forall>i \<le> nat (maxRetries client0). fails_5xx (net_always_503 i)"
    by (simp add: net_always_503_def unavailable_def fails_5xx_def try_block_def ok_def)
  have m: "nat (maxRetries client0) = 3"
    by (simp add: client0_def)
  have t: "try_block (net_always_503 3) =
             Threw (APIError 503 ''API request failed'' (Some (Raw ''busy'')))"
    by (simp add: net_always_503_def unavailable_def try_block_def ok_def)
  note inst1 = C5_retry_5xx_with_backoff
                 [of 2 net_503_twice_then_ok 7 client0 "''GET''" "''/prompts''"
                     "None :: unit option"]
  note inst2 = C5_retry_5xx_with_backoff
                 [of 0 net_always_503 7 client0 "''GET''" "''/prompts''" "None :: unit option"]
  have r1: "request client0 net_503_twice_then_ok ''GET'' ''/prompts'' (None :: unit option) 0 =
       ([Fetch ''GET'' ''https://cloud.langfuse.com/api/public/v2/prompts'' None, Sleep 1000,
         Fetch ''GET'' ''https://cloud.langfuse.com/api/public/v2/prompts'' None, Sleep 2000,
         Fetch ''GET'' ''https://cloud.langfuse.com/api/public/v2/prompts'' None], Inr 7)"
    using inst1 a1 a2 a3 by (simp add: retry_events_def upt_2 client0_def)
  have r2: "request client0 net_always_503 ''GET'' ''/prompts'' (None :: unit option) 0 =
       ([Fetch ''GET'' ''https://cloud.langfuse.com/api/public/v2/prompts'' None, Sleep 1000,
         Fetch ''GET'' ''https://cloud.langfuse.com/api/public/v2/prompts'' None, Sleep 2000,
         Fetch ''GET'' ''https://cloud.langfuse.com/api/public/v2/prompts'' None, Sleep 4000,
         Fetch ''GET'' ''https://cloud.langfuse.com/api/public/v2/prompts'' None],
        Inl (APIError 503 ''API request failed'' (Some (Raw ''busy''))))"
    using inst2 b1 t by (auto simp: m retry_events_def upt_3 client0_def)
  show ?thesis
    using r1 r2 a1 a2 b1 by (simp add: m client0_def)
qed

subsection \<open>Timeouts\<close>

text \<open>
  C1 (as amended). An attempt that fails by timeout (\<open>fetch\<close> rejects with an
  \<open>AbortError\<close>) ends the call at once: the caller gets an API error with status 408,
  \<open>Request timeout\<close>, after that one fetch, with no wait and no retry, whatever
  \<open>retryCount\<close> and \<open>maxRetries\<close> are.
\<close>

theorem C1_timeout_surfaces_at_once:
  "net k = Rejects ''AbortError'' \<Longrightarrow>
   request cl net method path d k =
     ([Fetch method (baseUrl cl @ ''/api/public/v2'' @ path) d],
      Inl (APIError 408 ''Request timeout'' None))"
  by (subst request.simps) (simp add: try_block_def Let_def)

theorem C1_timeout_surfaces_at_once_witness:
  "net_timeout_then_ok 0 = Rejects ''AbortError''
   \<and> request client0 net_timeout_then_ok ''PATCH'' ''/prompts/greeting/versions/2''
         (Some [''staging'']) 0 =
     ([Fetch ''PATCH'' ''https://cloud.langfuse.com/api/public/v2/prompts/greeting/versions/2''
         (Some [''staging''])],
      Inl (APIError 408 ''Request timeout'' None))"
  using C1_timeout_surfaces_at_once
          [of net_timeout_then_ok 0 client0 "''PATCH''" "''/prompts/greeting/versions/2''"
              "Some [''staging'']"]
  by (simp add: net_timeout_then_ok_def client0_def)

text \<open>
  The claim C1 as the specification states it fails: with a retry budget of 3 and a
  second attempt that would succeed, a timeout of the first attempt is not followed by a
  wait of 1000 milliseconds and a retry; the call ends with the 408 error after one fetch.
\<close>

theorem C1_timeout_not_retried_counterexample:
  "(0::int) < maxRetries client0
   \<and> try_block (net_timeout_then_ok 1) = Returned (Inr 7)
   \<and> request client0 net_timeout_then_ok ''GET'' ''/prompts'' (None :: unit option) 0 =
     ([Fetch ''GET'' ''https://cloud.langfuse.com/api/public/v2/prompts'' None],
      Inl (APIError 408 ''Request timeout'' None))"
  by (subst request.simps)
     (simp add: net_timeout_then_ok_def ok_response_def client0_def try_block_def ok_def Let_def)

subsection \<open>Rate limit and authentication failures\<close>

text \<open>
  C7. An attempt answered with status 429, 401 or 403 ends the call at once, whatever
  \<open>retryCount\<close> and \<open>maxRetries\<close> are: one fetch, no wait, no retry, and the caller gets the
  rate-limit error (429) or the authentication error (401, 403).
\<close>

theorem C7_no_retry_on_429_401_403:
  "net k = Responds r \<Longrightarrow> status r = 429 \<or> status r = 401 \<or> status r = 403 \<Longrightarrow>
   request cl net method path d k =
     ([Fetch method (baseUrl cl @ ''/api/public/v2'' @ path) d],
      Inl (if status r = 429
           then RateLimitError (parseInt (or_string (header_Retry_After r) ''60''))
                  ''Rate limit exceeded''
           else AuthenticationError ''Authentication failed''))"
  by (subst request.simps) (auto simp: try_block_def Let_def)

theorem C7_no_retry_on_429_401_403_witness:
  "net_429_then_ok 0 = Responds rate_limited \<and> status rate_limited = 429
   \<and> request client0 net_429_then_ok ''GET'' ''/prompts'' (None :: unit option) 0 =
       ([Fetch ''GET'' ''https://cloud.langfuse.com/api/public/v2/prompts'' None],
        Inl (RateLimitError (Num 120) ''Rate limit exceeded''))
   \<and> net_403_then_ok 0 = Responds forbidden \<and> status forbidden = 403
   \<and> request client0 net_403_then_ok ''GET'' ''/prompts'' (None :: unit option) 0 =
       ([Fetch ''GET'' ''https://cloud.langfuse.com/api/public/v2/prompts'' None],
        Inl (AuthenticationError ''Authentication failed''))"
  using C7_no_retry_on_429_401_403
          [of net_429_then_ok 0 rate_limited client0 "''GET''" "''/prompts''" "None :: unit option"]
        C7_no_retry_on_429_401_403
          [of net_403_then_ok 0 forbidden client0 "''GET''" "''/prompts''" "None :: unit option"]
  by (simp add: net_429_then_ok_def net_403_then_ok_def rate_limited_def forbidden_def
                client0_def or_string_def parseInt_def is_white_space_def is_digit_def
                digit_value_def)

subsection \<open>The Retry-After header\<close>

lemma parseInt_60: "parseInt ''60'' = Num 60"
  by (simp add: parseInt_def is_white_space_def is_digit_def digit_value_def)

text \<open>With the header absent or empty the rate-limit error carries 60.\<close>

lemma retryAfter_default:
  "status r = 429 \<Longrightarrow> header_Retry_After r = None \<or> header_Retry_After r = Some [] \<Longrightarrow>
   try_block (Responds r) = Threw (RateLimitError (Num 60) ''Rate limit exceeded'')"
  by (auto simp: try_block_def or_string_def parseInt_60)

text \<open>
  C2. The code at a header that is present and does not parse as an integer, here the
  date form of \<open>Retry-After\<close>: the rate-limit error carries \<open>NaN\<close>, not 60. The default
  is substituted before \<open>parseInt\<close> and so only replaces an absent or empty header.
\<close>

theorem C2_unparsable_header_gives_NaN:
  "header_Retry_After rate_limited_until_date = Some ''Wed, 21 Oct 2015 07:28:00 GMT''
   \<and> parseInt ''Wed, 21 Oct 2015 07:28:00 GMT'' = NaN
   \<and> request client0 net_429_with_date ''GET'' ''/prompts'' (None :: unit option) 0 =
       ([Fetch ''GET'' ''https://cloud.langfuse.com/api/public/v2/prompts'' None],
        Inl (RateLimitError NaN ''Rate limit exceeded''))"
  by (subst request.simps)
     (simp add: net_429_with_date_def rate_limited_until_date_def client0_def try_block_def
                or_string_def parseInt_def is_white_space_def is_digit_def digit_value_def Let_def)

subsection \<open>createPrompt\<close>

text \<open>
  C6 (as amended). A \<open>createPrompt\<close> call whose parameters have type \<open>chat\<close> with a
  content that is not an array, or type \<open>text\<close> with a content that is not a string,
  fails before any network request is issued, with a plain \<open>Error\<close> that carries only a
  message.
\<close>

theorem C6_createPrompt_fails_fast:
  "prompt_type params = ''chat'' \<and> \<not> isArray (prompt params)
     \<or> prompt_type params = ''text'' \<and> \<not> isString (prompt params) \<Longrightarrow>
   createPrompt cl net params =
     ([], Inl (Error (if prompt_type params = ''chat''
                      then ''Chat prompts must be an array of messages''
                      else ''Text prompts must be a string'')))"
  by (auto simp: createPrompt_def)

theorem C6_createPrompt_fails_fast_witness:
  "prompt_type text_with_array = ''text'' \<and> \<not> isString (prompt text_with_array)
   \<and> createPrompt client0 net_always_503 text_with_array =
       ([], Inl (Error ''Text prompts must be a string''))"
  using C6_createPrompt_fails_fast [of text_with_array client0 net_always_503]
  by (simp add: text_with_array_def)

text \<open>
  The claim C6 as the specification states it fails in the kind of the error: the call
  with type \<open>chat\<close> and a string content does not fail with a \<open>ValidationError\<close>.
\<close>

theorem C6_not_a_ValidationError_counterexample:
  "createPrompt client0 net_always_503 chat_with_string
     = ([], Inl (Error ''Chat prompts must be an array of messages''))
   \<and> \<not> failed_with_ValidationError (createPrompt client0 net_always_503 chat_with_string)"
  by (simp add: createPrompt_def chat_with_string_def failed_with_ValidationError_def)

end
